theory Spec2Isabelle
  imports Complex_Main
begin

section \<open>Values shared by the two scripts\<close>

text \<open>
  The scripts compute with Python and numpy floats. They are modelled by the real numbers:
  every statement below is about the exact values of the expressions the scripts evaluate,
  not about their IEEE rounding. Python integers (frame indices) are \<open>int\<close>.
\<close>

type_synonym vec3 = "real \<times> real \<times> real"
type_synonym quat = "real \<times> real \<times> real \<times> real"

text \<open>
  The exceptions the modelled code can raise. \<open>NonFinite\<close> is no exception: it marks a
  numpy division by zero, whose result (\<^verbatim>\<open>inf\<close> or \<^verbatim>\<open>nan\<close>, with a warning) is no
  real number, so the model stops there.
\<close>

datatype error = ZeroDivisionError | ValueError | IndexError | NonFinite

text \<open>\<^verbatim>\<open>xyz * radius\<close> on a numpy vector: the scalar multiplies every component.\<close>

definition smult :: "vec3 \<Rightarrow> real \<Rightarrow> vec3" where
  "smult v r = (case v of (x, y, z) \<Rightarrow> (x * r, y * r, z * r))"

text \<open>\<^verbatim>\<open>a - b\<close> on numpy vectors of three components.\<close>

definition vsub :: "vec3 \<Rightarrow> vec3 \<Rightarrow> vec3" where
  "vsub a b = (case a of (ax, ay, az) \<Rightarrow> case b of (bx, by, bz) \<Rightarrow> (ax - bx, ay - by, az - bz))"

text \<open>
  \<^verbatim>\<open>rng.uniform(low, high)\<close> of numpy's RandomState returns \<open>low + (high - low) * u\<close> for
  a draw \<open>u\<close> of the half-open unit interval. The draw is an argument of the model.
\<close>

definition uniform :: "real \<Rightarrow> real \<Rightarrow> real \<Rightarrow> real" where
  "uniform low high u = low + (high - low) * u"

definition unit_draw :: "real \<Rightarrow> bool" where
  "unit_draw u \<longleftrightarrow> 0 \<le> u \<and> u < 1"

text \<open>\<^verbatim>\<open>range(a, b)\<close> over Python integers.\<close>

definition py_range :: "int \<Rightarrow> int \<Rightarrow> int list" where
  "py_range a b = [a .. b - 1]"

text \<open>\<^verbatim>\<open>xs[i]\<close>: a negative index counts from the end, an index out of range raises.\<close>

definition getitem :: "'a list \<Rightarrow> int \<Rightarrow> error + 'a" where
  "getitem xs i =
     (if 0 \<le> i \<and> i < int (length xs) then Inr (xs ! nat i)
      else if i < 0 \<and> - int (length xs) \<le> i then Inr (xs ! nat (int (length xs) + i))
      else Inl IndexError)"

section \<open>Scene objects\<close>

text \<open>
  Modelled from the spec: the classes of the scene collaborator are not among the
  sources. It has objects with settable scale, position, velocity, friction, restitution
  and key-value metadata, and per-frame keyframing of position and orientation
  attributes. One record stands for every asset of a scene. An attribute that a kind of
  asset does not have (a camera has no velocity) is \<open>None\<close>; the metadata entry
  \<^verbatim>\<open>"visibility"\<close> is the field \<open>visibility\<close>.
\<close>

datatype kvalue = KVec vec3 | KQuat quat

record asset =
  asset_id :: string
  background :: bool
  scale :: real
  position :: vec3
  quaternion :: quat
  keyframes :: "(string \<times> int) \<rightharpoonup> kvalue"
  velocity :: "vec3 option"
  friction :: "real option"
  restitution :: "real option"
  visibility :: "nat list"

text \<open>
  Modelled from the spec: \<^verbatim>\<open>keyframe_insert(member, frame)\<close> is a method of the scene
  collaborator. It stores the current value of the attribute \<open>member\<close> under the frame
  index; a later keyframe of the same attribute at the same frame replaces it.
\<close>

definition keyframe_insert :: "string \<Rightarrow> int \<Rightarrow> asset \<Rightarrow> asset" where
  "keyframe_insert member frame obj =
     (if member = ''position''
      then obj\<lparr>keyframes := (keyframes obj)((member, frame) \<mapsto> KVec (position obj))\<rparr>
      else if member = ''quaternion''
      then obj\<lparr>keyframes := (keyframes obj)((member, frame) \<mapsto> KQuat (quaternion obj))\<rparr>
      else obj)"

text \<open>
  Modelled from the spec: \<^verbatim>\<open>camera.look_at(target)\<close> is a method of the scene
  collaborator. It orients the camera to face the target from its current position. The
  function \<open>orient\<close> that computes the quaternion from the two points is an argument of
  the model.
\<close>

definition look_at :: "(vec3 \<Rightarrow> vec3 \<Rightarrow> quat) \<Rightarrow> vec3 \<Rightarrow> asset \<Rightarrow> asset" where
  "look_at orient target cam = cam\<lparr>quaternion := orient (position cam) target\<rparr>"

text \<open>
  Modelled from the spec: \<^verbatim>\<open>kb.PerspectiveCamera(...)\<close> is a class of the scene
  collaborator. A new camera stands at the origin and has no keyframe yet.
\<close>

definition PerspectiveCamera :: asset where
  "PerspectiveCamera =
     \<lparr>asset_id = ''camera'', background = False, scale = 1, position = (0, 0, 0),
      quaternion = (1, 0, 0, 0), keyframes = Map.empty, velocity = None, friction = None,
      restitution = None, visibility = []\<rparr>"

section \<open>multicapture: the training camera (linear orbit)\<close>

definition num_frames :: "int \<Rightarrow> int \<Rightarrow> int" where
  "num_frames frame_start frame_end = frame_end - frame_start + 1"


text \<open>
  \<^verbatim>\<open>theta_curr = theta + (frame - frame_start + 1) * 2 * np.pi / num_frames\<close>: the
  operands of the division are a Python float and a Python int, so a zero \<open>num_frames\<close>
  raises ZeroDivisionError.
\<close>

definition theta_curr :: "real \<Rightarrow> int \<Rightarrow> int \<Rightarrow> int \<Rightarrow> error + real" where
  "theta_curr theta frame_start frame_end frame =
     (if num_frames frame_start frame_end = 0 then Inl ZeroDivisionError
      else Inr (theta + real_of_int (frame - frame_start + 1) * 2 * pi
                  / real_of_int (num_frames frame_start frame_end)))"

definition orbit_body ::
  "(vec3 \<Rightarrow> vec3 \<Rightarrow> quat) \<Rightarrow> real \<Rightarrow> real \<Rightarrow> real \<Rightarrow> int \<Rightarrow> int \<Rightarrow> int \<Rightarrow> asset \<Rightarrow> error + asset" where
  "orbit_body orient theta phi r frame_start frame_end frame cam =
     (case theta_curr theta frame_start frame_end frame of
        Inl e \<Rightarrow> Inl e
      | Inr th \<Rightarrow>
          let phi_curr = phi;
              xyz_curr = (cos th * sin phi_curr, sin th * sin phi_curr, cos phi_curr);
              xyz_curr = smult xyz_curr r;
              cam = cam\<lparr>position := xyz_curr\<rparr>;
              cam = look_at orient (0, 0, 0) cam;
              cam = keyframe_insert ''position'' frame cam;
              cam = keyframe_insert ''quaternion'' frame cam
          in Inr cam)"

text \<open>A \<^verbatim>\<open>for\<close> loop over frames whose body may raise: the first error ends it.\<close>

fun for_frames :: "(int \<Rightarrow> asset \<Rightarrow> error + asset) \<Rightarrow> int list \<Rightarrow> asset \<Rightarrow> error + asset" where
  "for_frames body [] cam = Inr cam"
| "for_frames body (frame # frames) cam =
     (case body frame cam of Inl e \<Rightarrow> Inl e | Inr cam' \<Rightarrow> for_frames body frames cam')"

definition train_camera ::
  "(vec3 \<Rightarrow> vec3 \<Rightarrow> quat) \<Rightarrow> real \<Rightarrow> real \<Rightarrow> real \<Rightarrow> int \<Rightarrow> int \<Rightarrow> error + asset" where
  "train_camera orient theta phi r frame_start frame_end =
     for_frames (orbit_body orient theta phi r frame_start frame_end)
       (py_range (frame_start - 1) (frame_end + 2)) PerspectiveCamera"

text \<open>The position the orbit keyframes at azimuth \<open>th\<close>, elevation \<open>phi\<close> and radius \<open>r\<close>.\<close>

definition orbit_position :: "real \<Rightarrow> real \<Rightarrow> real \<Rightarrow> vec3" where
  "orbit_position th phi r = (cos th * sin phi * r, sin th * sin phi * r, cos phi * r)"

section \<open>multicapture: the test camera\<close>

text \<open>
  Lines 281 to 294: one azimuth per frame from \<^verbatim>\<open>rng.uniform(0, 2 * np.pi)\<close>; \<open>draws\<close>
  gives the unit draw consumed at each frame.
\<close>

definition random_azimuth_body ::
  "(vec3 \<Rightarrow> vec3 \<Rightarrow> quat) \<Rightarrow> (int \<Rightarrow> real) \<Rightarrow> real \<Rightarrow> real \<Rightarrow> int \<Rightarrow> asset \<Rightarrow> asset" where
  "random_azimuth_body orient draws phi r frame cam =
     (let theta_curr = uniform 0 (2 * pi) (draws frame);
          phi_curr = phi;
          xyz_curr = (cos theta_curr * sin phi_curr, sin theta_curr * sin phi_curr, cos phi_curr);
          cam = cam\<lparr>position := smult xyz_curr r\<rparr>;
          cam = look_at orient (0, 0, 0) cam;
          cam = keyframe_insert ''position'' frame cam;
          cam = keyframe_insert ''quaternion'' frame cam
      in cam)"

text \<open>
  Lines 296 to 301. \<^verbatim>\<open>kb.sample_point_in_half_sphere_shell\<close> is a random sampler of the
  toolkit; \<open>sample\<close> gives, for its three arguments, the point it returns at each frame.
\<close>

definition shell_body ::
  "(vec3 \<Rightarrow> vec3 \<Rightarrow> quat) \<Rightarrow> (real \<Rightarrow> real \<Rightarrow> real \<Rightarrow> int \<Rightarrow> vec3) \<Rightarrow> real \<Rightarrow> real \<Rightarrow> int \<Rightarrow> asset \<Rightarrow> asset" where
  "shell_body orient sample min_radius max_radius frame cam =
     (let cam = cam\<lparr>position := sample min_radius max_radius (1 / 10) frame\<rparr>;
          cam = look_at orient (0, 0, 0) cam;
          cam = keyframe_insert ''position'' frame cam;
          cam = keyframe_insert ''quaternion'' frame cam
      in cam)"

definition test_camera_first ::
  "(vec3 \<Rightarrow> vec3 \<Rightarrow> quat) \<Rightarrow> (int \<Rightarrow> real) \<Rightarrow> real \<Rightarrow> real \<Rightarrow> int \<Rightarrow> int \<Rightarrow> asset" where
  "test_camera_first orient draws phi r frame_start frame_end =
     fold (random_azimuth_body orient draws phi r)
       (py_range (frame_start - 1) (frame_end + 2)) PerspectiveCamera"

definition test_camera ::
  "(vec3 \<Rightarrow> vec3 \<Rightarrow> quat) \<Rightarrow> (int \<Rightarrow> real) \<Rightarrow> (real \<Rightarrow> real \<Rightarrow> real \<Rightarrow> int \<Rightarrow> vec3) \<Rightarrow>
   real \<Rightarrow> real \<Rightarrow> real \<Rightarrow> real \<Rightarrow> int \<Rightarrow> int \<Rightarrow> asset" where
  "test_camera orient draws sample phi r min_radius max_radius frame_start frame_end =
     fold (shell_body orient sample min_radius max_radius)
       (py_range (frame_start - 1) (frame_end + 2))
       (test_camera_first orient draws phi r frame_start frame_end)"

text \<open>The second loop alone, on a new camera.\<close>

definition shell_camera ::
  "(vec3 \<Rightarrow> vec3 \<Rightarrow> quat) \<Rightarrow> (real \<Rightarrow> real \<Rightarrow> real \<Rightarrow> int \<Rightarrow> vec3) \<Rightarrow> real \<Rightarrow> real \<Rightarrow> int \<Rightarrow> int \<Rightarrow> asset" where
  "shell_camera orient sample min_radius max_radius frame_start frame_end =
     fold (shell_body orient sample min_radius max_radius)
       (py_range (frame_start - 1) (frame_end + 2)) PerspectiveCamera"

section \<open>gso: the fixed list of cameras\<close>

definition radians :: "real \<Rightarrow> real" where
  "radians d = d * pi / 180"

definition azimuth_elevation_to_cartesian :: "real \<Rightarrow> real \<Rightarrow> real \<Rightarrow> vec3" where
  "azimuth_elevation_to_cartesian azimuth elevation r =
     (let azimuth_rad = radians azimuth;
          elevation_rad = radians elevation;
          x = r * cos elevation_rad * cos azimuth_rad;
          y = r * cos elevation_rad * sin azimuth_rad;
          z = r * sin elevation_rad
      in (x, y, z))"

definition get_zero123pp_camera :: "vec3 list" where
  "get_zero123pp_camera =
     (let azimuths = [30, 90, 150, 210, 270, 330];
          elevations = [30, - 20, 30, - 20, 30, - 20]
      in map (\<lambda>(azimuth, elevation). azimuth_elevation_to_cartesian azimuth elevation (13 / 10))
           (zip azimuths elevations))"

definition set_cameras_body ::
  "(vec3 \<Rightarrow> vec3 \<Rightarrow> quat) \<Rightarrow> vec3 list \<Rightarrow> int \<Rightarrow> asset \<Rightarrow> error + asset" where
  "set_cameras_body orient all_frames frame_idx cam =
     (case getitem all_frames (frame_idx - 1) of
        Inl e \<Rightarrow> Inl e
      | Inr p \<Rightarrow>
          let cam = cam\<lparr>position := p\<rparr>;
              cam = look_at orient (0, 0, 0) cam;
              cam = keyframe_insert ''position'' frame_idx cam;
              cam = keyframe_insert ''quaternion'' frame_idx cam
          in Inr cam)"

text \<open>
  \<open>sync_dreamer_camera\<close> is what \<^verbatim>\<open>read_syncdreamer_camera()\<close> returns: the rows of an
  array of shape (16, 3) computed from the pickled poses.
\<close>

definition set_cameras :: "(vec3 \<Rightarrow> vec3 \<Rightarrow> quat) \<Rightarrow> vec3 list \<Rightarrow> error + asset" where
  "set_cameras orient sync_dreamer_camera =
     (let zero123pp_camera = get_zero123pp_camera;
          all_frames = sync_dreamer_camera @ zero123pp_camera
      in for_frames (set_cameras_body orient all_frames) (py_range 1 23) PerspectiveCamera)"

section \<open>gso: the rendered object\<close>





section \<open>multicapture: objects\<close>


text \<open>
  The scene of the multicapture script is the list \<^verbatim>\<open>scene.assets\<close>; an object is
  referred to by its index in that list, so that an assignment through one reference
  (\<^verbatim>\<open>dome\<close>, the loop variable \<^verbatim>\<open>obj\<close>) is an update of the list.
\<close>

text \<open>
  Modelled from the spec: \<^verbatim>\<open>scene.foreground_assets\<close> is a property of the scene
  collaborator. The spec sets the objects apart from the ground or backdrop; the
  foreground assets are the assets not marked as background (the script creates the
  dome with \<^verbatim>\<open>background=True\<close>), in the order of the scene.
\<close>

definition foreground_assets :: "asset list \<Rightarrow> nat list" where
  "foreground_assets assets = filter (\<lambda>i. \<not> background (assets ! i)) [0..<length assets]"

text \<open>Lines 186 to 189, the body of the loop that stops the settled objects.\<close>

definition reset_obj :: "asset \<Rightarrow> asset" where
  "reset_obj obj =
     (if velocity obj \<noteq> None
      then obj\<lparr>velocity := Some (0, 0, 0), friction := Some (5 / 10), restitution := Some (5 / 10)\<rparr>
      else obj)"

text \<open>Lines 185 to 193; \<open>dome\<close> is the index of the dome in the scene.\<close>

definition resetting :: "real \<Rightarrow> real \<Rightarrow> nat \<Rightarrow> asset list \<Rightarrow> asset list" where
  "resetting floor_friction floor_restitution dome assets =
     (let assets = fold (\<lambda>i st. st[i := reset_obj (st ! i)]) (foreground_assets assets) assets;
          assets = assets[dome := (assets ! dome)\<lparr>friction := Some floor_friction\<rparr>];
          assets = assets[dome := (assets ! dome)\<lparr>restitution := Some floor_restitution\<rparr>]
      in assets)"

definition VELOCITY_RANGE :: "vec3 \<times> vec3" where
  "VELOCITY_RANGE = ((- 4, - 4, 0), (4, 4, 0))"

text \<open>\<^verbatim>\<open>rng.uniform(low, high)\<close> on triples: one draw for each component.\<close>

definition uniform3 :: "vec3 \<Rightarrow> vec3 \<Rightarrow> vec3 \<Rightarrow> vec3" where
  "uniform3 low high u =
     (case low of (lx, ly, lz) \<Rightarrow> case high of (hx, hy, hz) \<Rightarrow> case u of (ux, uy, uz) \<Rightarrow>
        (uniform lx hx ux, uniform ly hy uy, uniform lz hz uz))"

text \<open>
  Lines 210 and 211: the velocity of a dynamic object, assigned once
  \<^verbatim>\<open>move_until_no_overlap\<close> has placed it at \<open>position obj\<close>.
\<close>

definition toss :: "vec3 \<Rightarrow> asset \<Rightarrow> asset" where
  "toss u obj =
     obj\<lparr>velocity := Some (vsub (uniform3 (fst VELOCITY_RANGE) (snd VELOCITY_RANGE) u)
                               (fst (position obj), fst (snd (position obj)), 0))\<rparr>"

section \<open>multicapture: postprocessing\<close>

text \<open>
  A segmentation is one list of pixel labels for each rendered frame. Label 0 is the
  background; the asset at index \<open>i\<close> of \<^verbatim>\<open>scene.assets\<close> has label \<open>i + 1\<close>.
\<close>

text \<open>
  Modelled from the spec: \<^verbatim>\<open>kb.compute_visibility\<close> is not among the sources. It
  computes, for each object, the count of pixels labelled with that object's index in each
  frame, and stores the counts as the object's visibility.
\<close>

definition compute_visibility :: "nat list list \<Rightarrow> asset list \<Rightarrow> asset list" where
  "compute_visibility segmentation assets =
     map (\<lambda>(i, a). a\<lparr>visibility := map (\<lambda>frame. count_list frame (i + 1)) segmentation\<rparr>)
       (enumerate 0 assets)"

text \<open>\<^verbatim>\<open>np.max\<close> of an array of counts; numpy raises ValueError on an empty array.\<close>

fun np_max :: "nat list \<Rightarrow> error + nat" where
  "np_max [] = Inl ValueError"
| "np_max (x # xs) = Inr (fold max xs x)"

text \<open>
  Lines 240 and 241: the list comprehension over the foreground assets; an exception of
  the condition ends it.
\<close>

fun visible :: "asset list \<Rightarrow> nat list \<Rightarrow> error + nat list" where
  "visible assets [] = Inr []"
| "visible assets (i # rest) =
     (case np_max (visibility (assets ! i)) of
        Inl e \<Rightarrow> Inl e
      | Inr m \<Rightarrow>
          (case visible assets rest of
             Inl e \<Rightarrow> Inl e
           | Inr vs \<Rightarrow> Inr (if m > 0 then i # vs else vs)))"

text \<open>
  \<^verbatim>\<open>sorted(xs, key=key, reverse=True)\<close>: Python's sort is stable, also when reversed, so
  the result is the stable ascending sort by the negated key.
\<close>

definition sorted_reverse :: "('a \<Rightarrow> int) \<Rightarrow> 'a list \<Rightarrow> 'a list" where
  "sorted_reverse key xs = sort_key (\<lambda>x. - key x) xs"

text \<open>The key of lines 244 and 315: \<^verbatim>\<open>np.sum(asset.metadata["visibility"])\<close>.\<close>

definition total_visibility :: "asset list \<Rightarrow> nat \<Rightarrow> int" where
  "total_visibility assets i = int (sum_list (visibility (assets ! i)))"

text \<open>The position of the first occurrence of an element in a list, if there is one.\<close>

fun index_of :: "nat \<Rightarrow> nat list \<Rightarrow> nat option" where
  "index_of a [] = None"
| "index_of a (b # bs) = (if a = b then Some 0 else map_option Suc (index_of a bs))"

text \<open>
  Modelled from the spec: the remap of \<^verbatim>\<open>kb.adjust_segmentation_idxs\<close>, which is not
  among the sources. It sends each original index to its new rank-based index, the
  position in the retained list plus one; the background stays index 0, and any index
  not corresponding to a retained object is mapped to the background sentinel 0.
\<close>

definition remap :: "asset list \<Rightarrow> nat list \<Rightarrow> nat \<Rightarrow> nat" where
  "remap assets assets_subset p =
     (if p = 0 \<or> length assets < p then 0
      else case index_of (p - 1) assets_subset of None \<Rightarrow> 0 | Some k \<Rightarrow> k + 1)"

text \<open>
  Modelled from the spec: \<^verbatim>\<open>kb.adjust_segmentation_idxs\<close> is not among the sources. It
  rewrites every pixel in every segmentation frame through the remap.
\<close>

definition adjust_segmentation_idxs :: "nat list list \<Rightarrow> asset list \<Rightarrow> nat list \<Rightarrow> nat list list" where
  "adjust_segmentation_idxs segmentation assets assets_subset = map (map (remap assets assets_subset)) segmentation"

text \<open>
  Modelled from the spec: \<^verbatim>\<open>kb.get_instance_info\<close> is not among the sources. The
  per-instance info of the metadata document has one entry for each retained object, in
  the order of the retained list.
\<close>

definition get_instance_info :: "asset list \<Rightarrow> nat list \<Rightarrow> asset list" where
  "get_instance_info assets assets_subset = map (\<lambda>i. assets ! i) assets_subset"

record postprocessed =
  segmentation_out :: "nat list list"
  visible_foreground_assets :: "nat list"
  num_instances :: nat
  instances :: "asset list"

text \<open>Lines 239 to 251 and 266 (and again 310 to 322 and 336).\<close>

definition postprocess :: "nat list list \<Rightarrow> asset list \<Rightarrow> error + postprocessed" where
  "postprocess segmentation assets =
     (let assets = compute_visibility segmentation assets
      in case visible assets (foreground_assets assets) of
           Inl e \<Rightarrow> Inl e
         | Inr vs \<Rightarrow>
             (let vs = sorted_reverse (total_visibility assets) vs;
                  seg = adjust_segmentation_idxs segmentation assets vs
              in Inr \<lparr>segmentation_out = seg, visible_foreground_assets = vs,
                      num_instances = length vs, instances = get_instance_info assets vs\<rparr>))"

section \<open>Definitions used by the statements and proofs\<close>

text \<open>
  The four statements every camera loop runs for a frame: set the position, face the
  origin, keyframe the position, keyframe the orientation.
\<close>

definition commit_pose :: "(vec3 \<Rightarrow> vec3 \<Rightarrow> quat) \<Rightarrow> vec3 \<Rightarrow> int \<Rightarrow> asset \<Rightarrow> asset" where
  "commit_pose orient p frame cam =
     cam\<lparr>position := p, quaternion := orient p (0, 0, 0),
         keyframes := (keyframes cam)((''position'', frame) \<mapsto> KVec p,
                                      (''quaternion'', frame) \<mapsto> KQuat (orient p (0, 0, 0)))\<rparr>"

text \<open>The keyframes after these four statements ran for each frame of a list, at position \<open>P f\<close>.\<close>

definition pose_keyframes ::
  "(vec3 \<Rightarrow> vec3 \<Rightarrow> quat) \<Rightarrow> (int \<Rightarrow> vec3) \<Rightarrow> int list \<Rightarrow> ((string \<times> int) \<rightharpoonup> kvalue) \<Rightarrow> ((string \<times> int) \<rightharpoonup> kvalue)" where
  "pose_keyframes orient P frames kf =
     (\<lambda>(m, f). if f \<in> set frames \<and> m = ''position'' then Some (KVec (P f))
              else if f \<in> set frames \<and> m = ''quaternion'' then Some (KQuat (orient (P f) (0, 0, 0)))
              else kf (m, f))"

text \<open>The azimuth the training loop computes where \<open>num_frames\<close> is not zero.\<close>

definition azimuth :: "real \<Rightarrow> int \<Rightarrow> int \<Rightarrow> int \<Rightarrow> real" where
  "azimuth theta frame_start frame_end frame =
     theta + real_of_int (frame - frame_start + 1) * 2 * pi / real_of_int (num_frames frame_start frame_end)"

text \<open>
  A camera is keyframed exactly on a set of frames: at each of them a position and the
  orientation that faces the origin from that position, and no keyframe elsewhere.
\<close>

definition keyframed_exactly :: "(vec3 \<Rightarrow> vec3 \<Rightarrow> quat) \<Rightarrow> asset \<Rightarrow> int set \<Rightarrow> bool" where
  "keyframed_exactly orient cam F \<longleftrightarrow>
     (\<forall>f\<in>F. \<exists>p. keyframes cam (''position'', f) = Some (KVec p) \<and>
                  keyframes cam (''quaternion'', f) = Some (KQuat (orient p (0, 0, 0)))) \<and>
     (\<forall>m f. keyframes cam (m, f) \<noteq> None \<longrightarrow> f \<in> F \<and> (m = ''position'' \<or> m = ''quaternion''))"

text \<open>Concrete arguments for the instances below.\<close>

definition example_orient :: "vec3 \<Rightarrow> vec3 \<Rightarrow> quat" where
  "example_orient p target = (case vsub target p of (x, y, z) \<Rightarrow> (0, x, y, z))"

definition example_sync :: "vec3 list" where
  "example_sync = replicate 16 (1, 0, 0)"

definition example_draws :: "int \<Rightarrow> real" where
  "example_draws f = 1 / 2"

definition example_sample :: "real \<Rightarrow> real \<Rightarrow> real \<Rightarrow> int \<Rightarrow> vec3" where
  "example_sample inner_radius outer_radius offset f = (inner_radius, outer_radius, offset)"

definition example_dome :: asset where
  "example_dome =
     \<lparr>asset_id = ''dome'', background = True, scale = 1, position = (0, 0, 0),
      quaternion = (1, 0, 0, 0), keyframes = Map.empty, velocity = Some (0, 0, 0),
      friction = Some 1, restitution = Some 0, visibility = []\<rparr>"

definition example_object :: asset where
  "example_object =
     \<lparr>asset_id = ''shoe'', background = False, scale = 2, position = (3, - 2, 1),
      quaternion = (1, 0, 0, 0), keyframes = Map.empty, velocity = Some (1, 2, 3),
      friction = Some 1, restitution = Some 0, visibility = []\<rparr>"

definition example_assets :: "asset list" where
  "example_assets = [example_dome, PerspectiveCamera, example_object]"



text \<open>An object is seen: some frame has a pixel labelled with it.\<close>

definition seen :: "nat list list \<Rightarrow> nat \<Rightarrow> bool" where
  "seen segmentation i \<longleftrightarrow> (\<exists>frame\<in>set segmentation. count_list frame (i + 1) \<noteq> 0)"

text \<open>The pixels labelled with an object, summed over the frames.\<close>

definition total_count :: "nat list list \<Rightarrow> nat \<Rightarrow> nat" where
  "total_count segmentation i = sum_list (map (\<lambda>frame. count_list frame (i + 1)) segmentation)"

text \<open>
  The order of the retained list: a larger key first, and for equal keys the smaller
  index in \<^verbatim>\<open>scene.assets\<close> first.
\<close>

definition ranked :: "(nat \<Rightarrow> int) \<Rightarrow> nat \<Rightarrow> nat \<Rightarrow> bool" where
  "ranked key i j \<longleftrightarrow> key j < key i \<or> (key i = key j \<and> i < j)"

text \<open>
  Three objects and two frames: object 1 covers 20 + 30 pixels, object 2 none, object 3
  covers 120 pixels; the other pixels are background.
\<close>

definition example_objects :: "asset list" where
  "example_objects = [example_object, example_object, example_object]"

definition example_segmentation :: "nat list list" where
  "example_segmentation =
     [replicate 20 1 @ replicate 120 3 @ replicate 7 0, replicate 30 1 @ replicate 4 0]"

section \<open>The camera loops\<close>

lemma set_py_range: "set (py_range a b) = {a ..< b}"
  by (auto simp: py_range_def)

lemma theta_curr_azimuth:
  "num_frames fs fe \<noteq> 0 \<Longrightarrow> theta_curr theta fs fe f = Inr (azimuth theta fs fe f)"
  by (simp add: theta_curr_def azimuth_def)

lemma orbit_body_commit:
  "num_frames fs fe \<noteq> 0 \<Longrightarrow>
   orbit_body orient theta phi r fs fe f cam =
     Inr (commit_pose orient (orbit_position (azimuth theta fs fe f) phi r) f cam)"
  by (simp add: orbit_body_def theta_curr_azimuth commit_pose_def orbit_position_def smult_def
      look_at_def keyframe_insert_def Let_def)

lemma random_azimuth_body_commit:
  "random_azimuth_body orient draws phi r f cam =
     commit_pose orient (orbit_position (uniform 0 (2 * pi) (draws f)) phi r) f cam"
  by (simp add: random_azimuth_body_def commit_pose_def orbit_position_def smult_def
      look_at_def keyframe_insert_def Let_def)

lemma shell_body_commit:
  "shell_body orient sample lo hi f cam = commit_pose orient (sample lo hi (1 / 10) f) f cam"
  by (simp add: shell_body_def commit_pose_def look_at_def keyframe_insert_def Let_def)

lemma pose_keyframes_step:
  "pose_keyframes orient P frames
     (kf((''position'', x) \<mapsto> KVec (P x), (''quaternion'', x) \<mapsto> KQuat (orient (P x) (0, 0, 0))))
   = pose_keyframes orient P (x # frames) kf"
  by (rule ext) (auto simp: pose_keyframes_def split: if_splits)

lemma pose_keyframes_single:
  "kf((''position'', x) \<mapsto> KVec (P x), (''quaternion'', x) \<mapsto> KQuat (orient (P x) (0, 0, 0)))
   = pose_keyframes orient P [x] kf"
  by (rule ext) (auto simp: pose_keyframes_def split: if_splits)

lemma fold_commit_pose:
  "fold (\<lambda>f. commit_pose orient (P f) f) frames cam =
     (if frames = [] then cam
      else cam\<lparr>position := P (last frames), quaternion := orient (P (last frames)) (0, 0, 0),
               keyframes := pose_keyframes orient P frames (keyframes cam)\<rparr>)"
proof (induction frames arbitrary: cam)
  case Nil
  show ?case by simp
next
  case (Cons x xs)
  show ?case
  proof (cases "xs = []")
    case True
    then show ?thesis by (simp add: commit_pose_def pose_keyframes_single)
  next
    case False
    have "fold (\<lambda>f. commit_pose orient (P f) f) (x # xs) cam =
          fold (\<lambda>f. commit_pose orient (P f) f) xs (commit_pose orient (P x) x cam)"
      by simp
    also have "\<dots> = (commit_pose orient (P x) x cam)
          \<lparr>position := P (last xs), quaternion := orient (P (last xs)) (0, 0, 0),
           keyframes := pose_keyframes orient P xs (keyframes (commit_pose orient (P x) x cam))\<rparr>"
      using False by (simp add: Cons.IH)
    also have "\<dots> = cam\<lparr>position := P (last xs), quaternion := orient (P (last xs)) (0, 0, 0),
           keyframes := pose_keyframes orient P (x # xs) (keyframes cam)\<rparr>"
      by (simp add: commit_pose_def pose_keyframes_step)
    finally show ?thesis
      using False by simp
  qed
qed

lemma keyframes_fold_commit_pose:
  "keyframes (fold (\<lambda>f. commit_pose orient (P f) f) frames cam)
     = pose_keyframes orient P frames (keyframes cam)"
  by (cases "frames = []") (simp_all add: fold_commit_pose pose_keyframes_def)

lemma pose_keyframes_overwrite:
  "pose_keyframes orient P frames (pose_keyframes orient Q frames kf) = pose_keyframes orient P frames kf"
  by (rule ext) (auto simp: pose_keyframes_def)

lemma fold_commit_pose_twice:
  "fold (\<lambda>f. commit_pose orient (P f) f) frames (fold (\<lambda>f. commit_pose orient (Q f) f) frames cam)
     = fold (\<lambda>f. commit_pose orient (P f) f) frames cam"
  by (simp add: fold_commit_pose pose_keyframes_overwrite)

lemma for_frames_fold:
  "(\<And>f c. f \<in> set frames \<Longrightarrow> body f c = Inr (g f c)) \<Longrightarrow>
   for_frames body frames cam = Inr (fold g frames cam)"
  by (induction frames arbitrary: cam) simp_all

lemma keyframes_PerspectiveCamera: "keyframes PerspectiveCamera = Map.empty"
  by (simp add: PerspectiveCamera_def)

lemma keyframed_exactly_fold:
  "keyframed_exactly orient
     (fold (\<lambda>f. commit_pose orient (P f) f) frames PerspectiveCamera) (set frames)"
  by (simp add: keyframed_exactly_def keyframes_fold_commit_pose pose_keyframes_def
      keyframes_PerspectiveCamera)

lemma train_camera_fold:
  assumes "num_frames fs fe \<noteq> 0"
  shows "train_camera orient theta phi r fs fe =
     Inr (fold (\<lambda>f. commit_pose orient (orbit_position (azimuth theta fs fe f) phi r) f)
            (py_range (fs - 1) (fe + 2)) PerspectiveCamera)"
  unfolding train_camera_def
  by (rule for_frames_fold) (simp add: orbit_body_commit assms)

lemma test_camera_first_fold:
  "test_camera_first orient draws phi r fs fe =
     fold (\<lambda>f. commit_pose orient (orbit_position (uniform 0 (2 * pi) (draws f)) phi r) f)
       (py_range (fs - 1) (fe + 2)) PerspectiveCamera"
  by (simp add: test_camera_first_def random_azimuth_body_commit[abs_def])

lemma length_get_zero123pp_camera: "length get_zero123pp_camera = 6"
  by (simp add: get_zero123pp_camera_def)

lemma set_cameras_fold:
  assumes "length sync_dreamer_camera = 16"
  shows "set_cameras orient sync_dreamer_camera =
     Inr (fold (\<lambda>f. commit_pose orient ((sync_dreamer_camera @ get_zero123pp_camera) ! nat (f - 1)) f)
            (py_range 1 23) PerspectiveCamera)"
  unfolding set_cameras_def Let_def
proof (rule for_frames_fold)
  fix f c
  assume "f \<in> set (py_range 1 23)"
  then have f: "1 \<le> f" "f < 23" by (simp_all add: set_py_range)
  have len: "length (sync_dreamer_camera @ get_zero123pp_camera) = 22"
    by (simp add: assms length_get_zero123pp_camera)
  have "getitem (sync_dreamer_camera @ get_zero123pp_camera) (f - 1)
      = Inr ((sync_dreamer_camera @ get_zero123pp_camera) ! nat (f - 1))"
    unfolding getitem_def len using f by simp
  then show "set_cameras_body orient (sync_dreamer_camera @ get_zero123pp_camera) f c =
      Inr (commit_pose orient ((sync_dreamer_camera @ get_zero123pp_camera) ! nat (f - 1)) f c)"
    by (simp add: set_cameras_body_def commit_pose_def look_at_def keyframe_insert_def Let_def)
qed



lemma shell_camera_fold:
  "shell_camera orient sample min_radius max_radius fs fe =
     fold (\<lambda>f. commit_pose orient (sample min_radius max_radius (1 / 10) f) f)
       (py_range (fs - 1) (fe + 2)) PerspectiveCamera"
  by (simp add: shell_camera_def shell_body_commit[abs_def])

lemma test_camera_fold:
  "test_camera orient draws sample phi r min_radius max_radius fs fe =
     fold (\<lambda>f. commit_pose orient (sample min_radius max_radius (1 / 10) f) f)
       (py_range (fs - 1) (fe + 2)) PerspectiveCamera"
  by (simp add: test_camera_def test_camera_first_fold shell_body_commit[abs_def]
      fold_commit_pose_twice)

section \<open>The objects and the gso scene\<close>

lemma fold_update_nth:
  "distinct idxs \<Longrightarrow> \<forall>i\<in>set idxs. i < length st \<Longrightarrow>
   length (fold (\<lambda>i st. st[i := g (st ! i)]) idxs st) = length st \<and>
   (\<forall>j < length st. fold (\<lambda>i st. st[i := g (st ! i)]) idxs st ! j
        = (if j \<in> set idxs then g (st ! j) else st ! j))"
proof (induction idxs arbitrary: st)
  case Nil
  show ?case by simp
next
  case (Cons i idxs)
  have i: "i < length st" "i \<notin> set idxs" using Cons.prems by simp_all
  have "distinct idxs" "\<forall>k\<in>set idxs. k < length (st[i := g (st ! i)])"
    using Cons.prems by simp_all
  from Cons.IH[OF this] show ?case
    using i by (auto simp: nth_list_update)
qed

lemma foreground_assets_props:
  "distinct (foreground_assets assets)"
  "set (foreground_assets assets) = {i. i < length assets \<and> \<not> background (assets ! i)}"
  by (auto simp: foreground_assets_def)

lemma reset_loop_nth:
  assumes "j < length assets"
  shows "fold (\<lambda>i st. st[i := reset_obj (st ! i)]) (foreground_assets assets) assets ! j
     = (if background (assets ! j) then assets ! j else reset_obj (assets ! j))"
    and "length (fold (\<lambda>i st. st[i := reset_obj (st ! i)]) (foreground_assets assets) assets)
     = length assets"
  using fold_update_nth[of "foreground_assets assets" assets reset_obj] assms
  by (auto simp: foreground_assets_props)

lemma reset_obj_background: "background (reset_obj obj) = background obj"
  by (simp add: reset_obj_def)

lemma resetting_length: "length (resetting ff fr dome assets) = length assets"
  by (simp add: resetting_def Let_def fold_update_nth foreground_assets_props)

lemma resetting_nth:
  assumes "j < length assets"
  shows "resetting ff fr dome assets ! j =
     (let obj = (if background (assets ! j) then assets ! j else reset_obj (assets ! j))
      in if j = dome then obj\<lparr>friction := Some ff, restitution := Some fr\<rparr> else obj)"
  using assms
  by (simp add: resetting_def Let_def reset_loop_nth nth_list_update)

lemma uniform_half_open:
  assumes "low < high" "unit_draw u"
  shows "low \<le> uniform low high u \<and> uniform low high u < high"
proof -
  have u: "0 \<le> u" "u < 1" using assms(2) by (simp_all add: unit_draw_def)
  have d: "0 < high - low" using assms(1) by simp
  have "0 \<le> (high - low) * u" using d u(1) by simp
  moreover have "(high - low) * u < (high - low) * 1"
    using d u(2) by (simp only: mult_less_cancel_left_pos)
  ultimately show ?thesis by (simp add: uniform_def)
qed



section \<open>Postprocessing\<close>

lemma compute_visibility_length:
  "length (compute_visibility segmentation assets) = length assets"
  by (simp add: compute_visibility_def)

lemma compute_visibility_nth:
  assumes "i < length assets"
  shows "compute_visibility segmentation assets ! i
     = (assets ! i)\<lparr>visibility := map (\<lambda>frame. count_list frame (i + 1)) segmentation\<rparr>"
  using assms by (simp add: compute_visibility_def nth_enumerate_eq)

lemma foreground_assets_compute_visibility:
  "foreground_assets (compute_visibility segmentation assets) = foreground_assets assets"
  unfolding foreground_assets_def compute_visibility_length
  by (rule filter_cong) (simp_all add: compute_visibility_nth)

lemma np_max_nonempty:
  assumes "xs \<noteq> []"
  shows "np_max xs = Inr (Max (set xs))"
proof (cases xs)
  case Nil
  then show ?thesis using assms by simp
next
  case (Cons x rest)
  have "Max (set (x # rest)) = fold max rest x" by (rule Max.set_eq_fold)
  then show ?thesis using Cons by simp
qed

lemma Max_pos_iff:
  fixes xs :: "nat list"
  assumes "xs \<noteq> []"
  shows "0 < Max (set xs) \<longleftrightarrow> (\<exists>c\<in>set xs. c \<noteq> 0)"
  using assms by (simp add: Max_gr_iff)

lemma visible_filter:
  assumes "\<forall>i\<in>set idxs. visibility (assets ! i) \<noteq> []"
  shows "visible assets idxs = Inr (filter (\<lambda>i. \<exists>c\<in>set (visibility (assets ! i)). c \<noteq> 0) idxs)"
  using assms
  by (induction idxs) (simp_all add: np_max_nonempty Max_pos_iff)

lemma visible_compute_visibility:
  assumes "segmentation \<noteq> []"
  shows "visible (compute_visibility segmentation assets) (foreground_assets assets)
     = Inr (filter (seen segmentation) (foreground_assets assets))"
proof -
  have idx: "\<forall>i\<in>set (foreground_assets assets). i < length assets"
    by (simp add: foreground_assets_def)
  have ne: "\<forall>i\<in>set (foreground_assets assets).
      visibility (compute_visibility segmentation assets ! i) \<noteq> []"
    using idx assms by (simp add: compute_visibility_nth)
  have "filter (\<lambda>i. \<exists>c\<in>set (visibility (compute_visibility segmentation assets ! i)). c \<noteq> 0)
          (foreground_assets assets)
      = filter (seen segmentation) (foreground_assets assets)"
    using idx by (intro filter_cong) (auto simp: compute_visibility_nth seen_def)
  then show ?thesis using visible_filter[OF ne] by simp
qed

lemma total_visibility_compute:
  "i < length assets \<Longrightarrow>
   total_visibility (compute_visibility segmentation assets) i = int (total_count segmentation i)"
  by (simp add: total_visibility_def total_count_def compute_visibility_nth)

lemma insort_key_ranked:
  assumes "sorted_wrt (ranked key) ys" "\<forall>y\<in>set ys. x < y"
  shows "sorted_wrt (ranked key) (insort_key (\<lambda>x. - key x) x ys)"
  using assms
proof (induction ys)
  case Nil
  show ?case by simp
next
  case (Cons y ys)
  show ?case
  proof (cases "- key x \<le> - key y")
    case True
    have "ranked key x z" if "z \<in> set (y # ys)" for z
    proof -
      have "key z \<le> key y" using that Cons.prems(1) by (auto simp: ranked_def)
      moreover have "x < z" using that Cons.prems(2) by auto
      ultimately show ?thesis using True by (auto simp: ranked_def)
    qed
    then show ?thesis using True Cons.prems(1) by simp
  next
    case False
    then have "ranked key y x" by (simp add: ranked_def)
    then show ?thesis
      using False Cons by (auto simp: set_insort_key)
  qed
qed

lemma sorted_reverse_ranked:
  assumes "sorted_wrt (<) xs"
  shows "sorted_wrt (ranked key) (sorted_reverse key xs)"
  using assms unfolding sorted_reverse_def
  by (induction xs) (auto intro!: insort_key_ranked)

lemma sorted_reverse_set: "set (sorted_reverse key xs) = set xs"
  and sorted_reverse_distinct: "distinct (sorted_reverse key xs) = distinct xs"
  and sorted_reverse_length: "length (sorted_reverse key xs) = length xs"
  by (simp_all add: sorted_reverse_def)

lemma ranked_cong:
  assumes "\<forall>i\<in>set xs. key i = key' i"
  shows "sorted_wrt (ranked key) xs = sorted_wrt (ranked key') xs"
  using assms by (induction xs) (auto simp: ranked_def)

lemma sorted_wrt_foreground: "sorted_wrt (<) (foreground_assets assets)"
  unfolding foreground_assets_def by (simp add: sorted_wrt_filter)

lemma index_of_None: "index_of a xs = None \<longleftrightarrow> a \<notin> set xs"
  by (induction xs) auto

lemma index_of_nth:
  "distinct xs \<Longrightarrow> k < length xs \<Longrightarrow> index_of (xs ! k) xs = Some k"
proof (induction xs arbitrary: k)
  case Nil
  then show ?case by simp
next
  case (Cons x xs)
  then show ?case by (cases k) auto
qed

lemma remap_length_cong:
  "length assets' = length assets \<Longrightarrow> remap assets' vs = remap assets vs"
  by (rule ext) (simp add: remap_def)

lemma postprocess_eq:
  assumes "segmentation \<noteq> []"
  shows "postprocess segmentation assets =
     (let cv = compute_visibility segmentation assets;
          vs = sorted_reverse (total_visibility cv) (filter (seen segmentation) (foreground_assets assets))
      in Inr \<lparr>segmentation_out = map (map (remap assets vs)) segmentation,
              visible_foreground_assets = vs, num_instances = length vs,
              instances = get_instance_info cv vs\<rparr>)"
  by (simp add: postprocess_def Let_def foreground_assets_compute_visibility
      visible_compute_visibility[OF assms] adjust_segmentation_idxs_def
      remap_length_cong[OF compute_visibility_length])

lemma retained_props:
  fixes segmentation assets
  defines "vs \<equiv> sorted_reverse (total_visibility (compute_visibility segmentation assets))
      (filter (seen segmentation) (foreground_assets assets))"
  shows "distinct vs"
    and "set vs = {i. i < length assets \<and> \<not> background (assets ! i) \<and> seen segmentation i}"
    and "sorted_wrt (ranked (\<lambda>i. int (total_count segmentation i))) vs"
proof -
  show "distinct vs"
    by (simp add: vs_def sorted_reverse_distinct foreground_assets_def)
  show s: "set vs = {i. i < length assets \<and> \<not> background (assets ! i) \<and> seen segmentation i}"
    by (auto simp: vs_def sorted_reverse_set foreground_assets_def)
  have "sorted_wrt (<) (filter (seen segmentation) (foreground_assets assets))"
    by (simp add: sorted_wrt_filter sorted_wrt_foreground)
  then have "sorted_wrt (ranked (total_visibility (compute_visibility segmentation assets))) vs"
    unfolding vs_def by (rule sorted_reverse_ranked)
  moreover have "\<forall>i\<in>set vs. total_visibility (compute_visibility segmentation assets) i
      = int (total_count segmentation i)"
    by (simp add: s total_visibility_compute)
  ultimately show "sorted_wrt (ranked (\<lambda>i. int (total_count segmentation i))) vs"
    using ranked_cong[of vs "total_visibility (compute_visibility segmentation assets)"
        "\<lambda>i. int (total_count segmentation i)"]
    by simp
qed

lemma remap_background:
  "p = 0 \<or> p - 1 \<notin> set vs \<Longrightarrow> remap assets vs p = 0"
  by (auto simp: remap_def index_of_None[THEN iffD2])

lemma remap_retained:
  assumes "distinct vs" "\<forall>i\<in>set vs. i < length assets" "k < length vs"
  shows "remap assets vs (vs ! k + 1) = k + 1"
proof -
  have "vs ! k < length assets" using assms(2,3) by simp
  then show ?thesis using assms(1,3) by (simp add: remap_def index_of_nth)
qed

lemma remap_nothing: "remap assets [] = (\<lambda>p. 0)"
  by (rule ext) (simp add: remap_def)

lemma count_list_replicate:
  "count_list (replicate n x) y = (if x = y then n else 0)"
  by (induction n) auto

lemma example_visible:
  "filter (seen example_segmentation) (foreground_assets example_objects) = [0, 2]"
  by (simp add: foreground_assets_def example_objects_def example_object_def seen_def
      example_segmentation_def count_list_replicate upt_rec)

lemma example_totals:
  "total_count example_segmentation 0 = 50"
  "total_count example_segmentation 1 = 0"
  "total_count example_segmentation 2 = 120"
  by (simp_all add: total_count_def example_segmentation_def count_list_replicate)

lemma example_retained:
  "sorted_reverse (total_visibility (compute_visibility example_segmentation example_objects))
     (filter (seen example_segmentation) (foreground_assets example_objects)) = [2, 0]"
proof -
  have len: "length example_objects = 3" by (simp add: example_objects_def)
  have "total_visibility (compute_visibility example_segmentation example_objects) 0 = 50"
    "total_visibility (compute_visibility example_segmentation example_objects) 2 = 120"
    by (simp_all add: total_visibility_compute len example_totals)
  then show ?thesis
    by (simp add: example_visible sorted_reverse_def)
qed

lemma example_postprocess:
  "postprocess example_segmentation example_objects =
     Inr \<lparr>segmentation_out =
            [replicate 20 2 @ replicate 120 1 @ replicate 7 0, replicate 30 2 @ replicate 4 0],
          visible_foreground_assets = [2, 0], num_instances = 2,
          instances = get_instance_info
            (compute_visibility example_segmentation example_objects) [2, 0]\<rparr>"
proof -
  have ne: "example_segmentation \<noteq> []" by (simp add: example_segmentation_def)
  have len: "length example_objects = 3" by (simp add: example_objects_def)
  have r: "remap example_objects [2, 0] 0 = 0" "remap example_objects [2, 0] (Suc 0) = 2"
    "remap example_objects [2, 0] 3 = 1"
    by (simp_all add: remap_def len)
  have "map (map (remap example_objects [2, 0])) example_segmentation
      = [replicate 20 2 @ replicate 120 1 @ replicate 7 0, replicate 30 2 @ replicate 4 0]"
    by (simp add: example_segmentation_def r)
  then show ?thesis
    by (simp add: postprocess_eq[OF ne] Let_def example_retained)
qed

section \<open>Claims about the cameras\<close>

text \<open>
  C1, as amended. In the linear orbit, where \<open>num_frames\<close> is not zero, the loop ends
  without an error and at every frame \<open>f\<close> of the padded range the azimuth is
  \<open>theta + (f - frame_start + 1) * 2 * pi / num_frames\<close>; the position keyframed at
  \<open>f\<close> is the point of that azimuth at the elevation \<open>phi\<close> and radius \<open>r\<close>, the same
  two values at every frame. The azimuth is \<open>theta\<close> at the first padded frame
  \<open>frame_start - 1\<close>, not at \<open>frame_start\<close>.
\<close>

theorem linear_orbit_azimuth:
  assumes "num_frames frame_start frame_end \<noteq> 0"
  shows "\<exists>cam. train_camera orient theta phi r frame_start frame_end = Inr cam \<and>
     (\<forall>f. frame_start - 1 \<le> f \<and> f \<le> frame_end + 1 \<longrightarrow>
        (\<exists>th. theta_curr theta frame_start frame_end f = Inr th \<and>
              th = theta + real_of_int (f - frame_start + 1) *
                     (2 * pi / real_of_int (num_frames frame_start frame_end)) \<and>
              keyframes cam (''position'', f) = Some (KVec (orbit_position th phi r))))"
  using assms
  by (simp add: train_camera_fold keyframes_fold_commit_pose pose_keyframes_def set_py_range
      theta_curr_azimuth azimuth_def)

theorem linear_orbit_azimuth_witness:
  "num_frames 1 24 \<noteq> 0 \<and> (1::int) - 1 \<le> 5 \<and> (5::int) \<le> 24 + 1 \<and>
   theta_curr 0 1 24 5 = Inr (0 + real_of_int (5 - 1 + 1) * (2 * pi / real_of_int (num_frames 1 24))) \<and>
   keyframes (projr (train_camera example_orient 0 (pi / 4) 15 1 24)) (''position'', 5)
     = Some (KVec (orbit_position
         (0 + real_of_int (5 - 1 + 1) * (2 * pi / real_of_int (num_frames 1 24))) (pi / 4) 15))"
proof -
  have nz: "num_frames 1 24 \<noteq> 0" by (simp add: num_frames_def)
  from linear_orbit_azimuth[OF nz, of example_orient 0 "pi / 4" 15]
  obtain cam where cam: "train_camera example_orient 0 (pi / 4) 15 1 24 = Inr cam"
    and all: "\<forall>f. 1 - 1 \<le> f \<and> f \<le> 24 + 1 \<longrightarrow>
        (\<exists>th. theta_curr 0 1 24 f = Inr th \<and>
              th = 0 + real_of_int (f - 1 + 1) * (2 * pi / real_of_int (num_frames 1 24)) \<and>
              keyframes cam (''position'', f) = Some (KVec (orbit_position th (pi / 4) 15)))"
    by blast
  from all have "\<exists>th. theta_curr 0 1 24 5 = Inr th \<and>
              th = 0 + real_of_int (5 - 1 + 1) * (2 * pi / real_of_int (num_frames 1 24)) \<and>
              keyframes cam (''position'', 5) = Some (KVec (orbit_position th (pi / 4) 15))"
    by simp
  then show ?thesis using nz cam by auto
qed

text \<open>
  C1 as stated fails: with \<open>theta = 0\<close> and the frames 1 to 24, the azimuth at frame 1
  is not \<open>theta + (1 - 1) * 2 * pi / 24\<close>.
\<close>

theorem linear_orbit_azimuth_claimed_fails:
  "theta_curr 0 1 24 1 \<noteq> Inr (0 + real_of_int (1 - 1) * 2 * pi / real_of_int (num_frames 1 24))"
  by (simp add: theta_curr_def num_frames_def)

text \<open>
  C4, as amended. The training loop of multicapture, where \<open>num_frames\<close> is not zero,
  ends without an error with a camera keyframed exactly on the padded range
  \<open>frame_start - 1 .. frame_end + 1\<close>: at each frame a position keyframe and the
  orientation keyframe that \<open>look_at\<close> computed from that position and the origin, and
  no keyframe at any other frame. So is the test camera of multicapture. The gso script
  keyframes its camera in the same way exactly on the frames 1 to 22, whatever the frame
  range is.
\<close>

theorem camera_keyframes_per_frame:
  "(num_frames frame_start frame_end \<noteq> 0 \<longrightarrow>
      (\<exists>cam. train_camera orient theta phi r frame_start frame_end = Inr cam \<and>
             keyframed_exactly orient cam {frame_start - 1 .. frame_end + 1})) \<and>
   keyframed_exactly orient
     (test_camera orient draws sample phi r min_radius max_radius frame_start frame_end)
     {frame_start - 1 .. frame_end + 1} \<and>
   (length sync_dreamer_camera = 16 \<longrightarrow>
      (\<exists>cam. set_cameras orient sync_dreamer_camera = Inr cam \<and>
             keyframed_exactly orient cam {1 .. 22}))"
proof -
  have a: "set (py_range (frame_start - 1) (frame_end + 2)) = {frame_start - 1 .. frame_end + 1}"
    by (auto simp: set_py_range)
  have b: "set (py_range 1 23) = {1 .. 22}"
    by (auto simp: set_py_range)
  show ?thesis
    using keyframed_exactly_fold[of orient _ "py_range (frame_start - 1) (frame_end + 2)"]
      keyframed_exactly_fold[of orient _ "py_range 1 23"]
    by (simp add: train_camera_fold test_camera_fold set_cameras_fold a b)
qed

theorem camera_keyframes_per_frame_witness:
  "num_frames 1 24 \<noteq> 0 \<and> length example_sync = 16 \<and>
   \<not> isl (train_camera example_orient 0 (pi / 4) 15 1 24) \<and>
   keyframed_exactly example_orient (projr (train_camera example_orient 0 (pi / 4) 15 1 24))
     {1 - 1 .. 24 + 1} \<and>
   keyframed_exactly example_orient
     (test_camera example_orient example_draws example_sample (pi / 4) 15 15 20 1 24)
     {1 - 1 .. 24 + 1} \<and>
   \<not> isl (set_cameras example_orient example_sync) \<and>
   keyframed_exactly example_orient (projr (set_cameras example_orient example_sync)) {1 .. 22}"
proof -
  have h: "num_frames 1 24 \<noteq> 0" "length example_sync = 16"
    by (simp_all add: num_frames_def example_sync_def)
  from camera_keyframes_per_frame[where frame_start = 1 and frame_end = 24
      and orient = example_orient and theta = 0 and phi = "pi / 4" and r = 15
      and draws = example_draws and sample = example_sample
      and min_radius = 15 and max_radius = 20
      and sync_dreamer_camera = example_sync] h
  show ?thesis by auto
qed

text \<open>
  C4 as stated fails on the gso script: with its frame range 1 to 22 the padded range
  holds the frames 0 and 23, and \<open>set_cameras\<close> commits no keyframe there.
\<close>

theorem set_cameras_not_padded:
  "\<not> isl (set_cameras example_orient example_sync) \<and>
   keyframes (projr (set_cameras example_orient example_sync)) (''position'', 0) = None \<and>
   keyframes (projr (set_cameras example_orient example_sync)) (''quaternion'', 23) = None"
proof -
  have "length example_sync = 16" by (simp add: example_sync_def)
  then show ?thesis
    by (simp add: set_cameras_fold keyframes_fold_commit_pose pose_keyframes_def set_py_range
        keyframes_PerspectiveCamera)
qed



text \<open>
  C7. For a frame range with \<open>frame_start \<le> frame_end\<close> the azimuth of the linear orbit
  is defined at every frame and strictly increasing in the frame index; from the first
  to the last requested frame it advances by \<open>2 * pi * (num_frames - 1) / num_frames\<close>,
  and by the full \<open>2 * pi\<close> from \<open>frame_start\<close> to \<open>frame_end + 1\<close>.
\<close>

theorem azimuth_increasing_one_revolution:
  assumes "frame_start \<le> frame_end"
  shows "\<exists>az. (\<forall>f. theta_curr theta frame_start frame_end f = Inr (az f)) \<and>
     (\<forall>f g. f < g \<longrightarrow> az f < az g) \<and>
     az frame_end - az frame_start
         = 2 * pi * real_of_int (num_frames frame_start frame_end - 1)
                  / real_of_int (num_frames frame_start frame_end) \<and>
     az (frame_end + 1) - az frame_start = 2 * pi"
proof -
  have n: "0 < num_frames frame_start frame_end"
    using assms by (simp add: num_frames_def)
  then have nz: "num_frames frame_start frame_end \<noteq> 0" by simp
  have mono: "azimuth theta frame_start frame_end f < azimuth theta frame_start frame_end g"
    if "f < g" for f g
  proof -
    have "real_of_int (f - frame_start + 1) < real_of_int (g - frame_start + 1)"
      using that by simp
    then have "real_of_int (f - frame_start + 1) * 2 * pi
        < real_of_int (g - frame_start + 1) * 2 * pi"
      by simp
    then show ?thesis
      using n by (simp add: azimuth_def divide_strict_right_mono)
  qed
  have span: "azimuth theta frame_start frame_end frame_end
      - azimuth theta frame_start frame_end frame_start
      = 2 * pi * real_of_int (num_frames frame_start frame_end - 1)
          / real_of_int (num_frames frame_start frame_end)"
  proof -
    have "azimuth theta frame_start frame_end frame_end
        - azimuth theta frame_start frame_end frame_start
        = (real_of_int (frame_end - frame_start + 1) * 2 * pi - 2 * pi)
            / real_of_int (num_frames frame_start frame_end)"
      by (simp add: azimuth_def diff_divide_distrib)
    also have "real_of_int (frame_end - frame_start + 1) * 2 * pi - 2 * pi
        = 2 * pi * real_of_int (num_frames frame_start frame_end - 1)"
      by (simp add: num_frames_def algebra_simps)
    finally show ?thesis .
  qed
  have rev: "azimuth theta frame_start frame_end (frame_end + 1)
      - azimuth theta frame_start frame_end frame_start = 2 * pi"
  proof -
    have "azimuth theta frame_start frame_end (frame_end + 1)
        - azimuth theta frame_start frame_end frame_start
        = (real_of_int (frame_end + 1 - frame_start + 1) * 2 * pi - 2 * pi)
            / real_of_int (num_frames frame_start frame_end)"
      by (simp add: azimuth_def diff_divide_distrib)
    also have "real_of_int (frame_end + 1 - frame_start + 1) * 2 * pi - 2 * pi
        = 2 * pi * real_of_int (num_frames frame_start frame_end)"
      by (simp add: num_frames_def algebra_simps)
    finally show ?thesis using nz by simp
  qed
  have "(\<forall>f. theta_curr theta frame_start frame_end f = Inr (azimuth theta frame_start frame_end f)) \<and>
     (\<forall>f g. f < g \<longrightarrow> azimuth theta frame_start frame_end f < azimuth theta frame_start frame_end g) \<and>
     azimuth theta frame_start frame_end frame_end - azimuth theta frame_start frame_end frame_start
         = 2 * pi * real_of_int (num_frames frame_start frame_end - 1)
                  / real_of_int (num_frames frame_start frame_end) \<and>
     azimuth theta frame_start frame_end (frame_end + 1) - azimuth theta frame_start frame_end frame_start = 2 * pi"
    using mono span rev by (simp add: theta_curr_azimuth nz)
  then show ?thesis by blast
qed

theorem azimuth_increasing_one_revolution_witness:
  "(1::int) \<le> 24 \<and> (7::int) < 8 \<and>
   \<not> isl (theta_curr 0 1 24 7) \<and>
   projr (theta_curr 0 1 24 7) < projr (theta_curr 0 1 24 8) \<and>
   projr (theta_curr 0 1 24 24) - projr (theta_curr 0 1 24 1)
     = 2 * pi * real_of_int (num_frames 1 24 - 1) / real_of_int (num_frames 1 24) \<and>
   projr (theta_curr 0 1 24 (24 + 1)) - projr (theta_curr 0 1 24 1) = 2 * pi"
proof -
  have le: "(1::int) \<le> 24" by simp
  from azimuth_increasing_one_revolution[OF le, of 0] obtain az where
    tot: "\<And>f. theta_curr 0 1 24 f = Inr (az f)" and
    mono: "\<And>f g. f < g \<Longrightarrow> az f < az g" and
    span: "az 24 - az 1 = 2 * pi * real_of_int (num_frames 1 24 - 1) / real_of_int (num_frames 1 24)" and
    rev: "az (24 + 1) - az 1 = 2 * pi"
    by blast
  have "az 7 < az 8" by (rule mono) simp
  then show ?thesis using span rev by (simp add: tot)
qed

text \<open>
  C9. The test camera is keyframed twice at every frame of the padded range: after the
  first loop the keyframes hold the pose of the random azimuth, after the second loop
  the sample of the half-sphere shell and the orientation facing the origin from it. The
  camera after both loops is the camera the second loop alone produces from a new
  camera, so nothing of the first loop is left.
\<close>

theorem test_camera_keeps_shell_samples:
  "test_camera orient draws sample phi r min_radius max_radius frame_start frame_end
     = shell_camera orient sample min_radius max_radius frame_start frame_end \<and>
   (\<forall>f. frame_start - 1 \<le> f \<and> f \<le> frame_end + 1 \<longrightarrow>
      keyframes (test_camera_first orient draws phi r frame_start frame_end) (''position'', f)
        = Some (KVec (orbit_position (uniform 0 (2 * pi) (draws f)) phi r)) \<and>
      keyframes (test_camera_first orient draws phi r frame_start frame_end) (''quaternion'', f)
        = Some (KQuat (orient (orbit_position (uniform 0 (2 * pi) (draws f)) phi r) (0, 0, 0))) \<and>
      keyframes (test_camera orient draws sample phi r min_radius max_radius frame_start frame_end)
          (''position'', f)
        = Some (KVec (sample min_radius max_radius (1 / 10) f)) \<and>
      keyframes (test_camera orient draws sample phi r min_radius max_radius frame_start frame_end)
          (''quaternion'', f)
        = Some (KQuat (orient (sample min_radius max_radius (1 / 10) f) (0, 0, 0))))"
proof -
  have eq: "test_camera orient draws sample phi r min_radius max_radius frame_start frame_end
     = shell_camera orient sample min_radius max_radius frame_start frame_end"
    by (simp add: test_camera_fold shell_camera_fold)
  note sh = shell_camera_fold[of orient sample min_radius max_radius frame_start frame_end]
  show ?thesis
    unfolding eq
    by (simp add: sh test_camera_first_fold keyframes_fold_commit_pose pose_keyframes_def
        set_py_range)
qed

theorem test_camera_keeps_shell_samples_witness:
  "(1::int) - 1 \<le> 3 \<and> (3::int) \<le> 24 + 1 \<and>
   test_camera example_orient example_draws example_sample (pi / 4) 15 15 20 1 24
     = shell_camera example_orient example_sample 15 20 1 24 \<and>
   keyframes (test_camera_first example_orient example_draws (pi / 4) 15 1 24) (''position'', 3)
     = Some (KVec (orbit_position (uniform 0 (2 * pi) (example_draws 3)) (pi / 4) 15)) \<and>
   keyframes (test_camera example_orient example_draws example_sample (pi / 4) 15 15 20 1 24)
       (''position'', 3)
     = Some (KVec (example_sample 15 20 (1 / 10) 3))"
proof -
  note t = test_camera_keeps_shell_samples[of example_orient example_draws example_sample "pi / 4" 15 15 20 1 24]
  have r: "(1::int) - 1 \<le> 3 \<and> (3::int) \<le> 24 + 1" by simp
  from t[THEN conjunct2, rule_format, OF r] t[THEN conjunct1] r
  show ?thesis by blast
qed

section \<open>Claims about the objects\<close>

text \<open>
  C3. Where the dome is an asset of the scene marked as background, the statements of
  the reset leave the assets and their foreground marks as they are, give every
  foreground asset that has a velocity the velocity \<open>(0, 0, 0)\<close>, the friction 0.5 and
  the restitution 0.5, whatever the three were before, and give the dome the friction
  \<open>floor_friction\<close> and the restitution \<open>floor_restitution\<close>.
\<close>

theorem resetting_stops_objects:
  assumes "dome < length assets" "background (assets ! dome)"
  shows "length (resetting floor_friction floor_restitution dome assets) = length assets \<and>
     foreground_assets (resetting floor_friction floor_restitution dome assets)
       = foreground_assets assets \<and>
     (\<forall>i \<in> set (foreground_assets assets). velocity (assets ! i) \<noteq> None \<longrightarrow>
        velocity (resetting floor_friction floor_restitution dome assets ! i) = Some (0, 0, 0) \<and>
        friction (resetting floor_friction floor_restitution dome assets ! i) = Some (5 / 10) \<and>
        restitution (resetting floor_friction floor_restitution dome assets ! i) = Some (5 / 10)) \<and>
     friction (resetting floor_friction floor_restitution dome assets ! dome) = Some floor_friction \<and>
     restitution (resetting floor_friction floor_restitution dome assets ! dome)
       = Some floor_restitution"
proof -
  let ?r = "resetting floor_friction floor_restitution dome assets"
  have len: "length ?r = length assets" by (rule resetting_length)
  have bg: "background (?r ! j) = background (assets ! j)" if "j < length assets" for j
    using that by (simp add: resetting_nth Let_def reset_obj_background)
  have fg: "foreground_assets ?r = foreground_assets assets"
    unfolding foreground_assets_def len
    by (rule filter_cong) (simp_all add: bg)
  have objs: "velocity (?r ! i) = Some (0, 0, 0) \<and> friction (?r ! i) = Some (5 / 10) \<and>
      restitution (?r ! i) = Some (5 / 10)"
    if "i \<in> set (foreground_assets assets)" "velocity (assets ! i) \<noteq> None" for i
  proof -
    have i: "i < length assets" "\<not> background (assets ! i)"
      using that(1) by (simp_all add: foreground_assets_props)
    then have "i \<noteq> dome" using assms(2) by auto
    then show ?thesis using i that(2) by (simp add: resetting_nth Let_def reset_obj_def)
  qed
  have dome: "friction (?r ! dome) = Some floor_friction \<and>
      restitution (?r ! dome) = Some floor_restitution"
    using assms by (simp add: resetting_nth Let_def)
  show ?thesis using len fg objs dome by blast
qed

theorem resetting_stops_objects_witness:
  "0 < length example_assets \<and> background (example_assets ! 0) \<and>
   2 \<in> set (foreground_assets example_assets) \<and> velocity (example_assets ! 2) \<noteq> None \<and>
   velocity (resetting (3 / 10) (5 / 10) 0 example_assets ! 2) = Some (0, 0, 0) \<and>
   friction (resetting (3 / 10) (5 / 10) 0 example_assets ! 2) = Some (5 / 10) \<and>
   restitution (resetting (3 / 10) (5 / 10) 0 example_assets ! 2) = Some (5 / 10) \<and>
   friction (resetting (3 / 10) (5 / 10) 0 example_assets ! 0) = Some (3 / 10) \<and>
   restitution (resetting (3 / 10) (5 / 10) 0 example_assets ! 0) = Some (5 / 10)"
proof -
  have h: "0 < length example_assets" "background (example_assets ! 0)"
    by (simp_all add: example_assets_def example_dome_def)
  have m: "2 \<in> set (foreground_assets example_assets)"
    by (simp add: foreground_assets_props example_assets_def example_object_def)
  have v: "velocity (example_assets ! 2) \<noteq> None"
    by (simp add: example_assets_def example_object_def)
  note t = resetting_stops_objects[OF h, of "3 / 10" "5 / 10"]
  from t have "\<forall>i \<in> set (foreground_assets example_assets). velocity (example_assets ! i) \<noteq> None \<longrightarrow>
        velocity (resetting (3 / 10) (5 / 10) 0 example_assets ! i) = Some (0, 0, 0) \<and>
        friction (resetting (3 / 10) (5 / 10) 0 example_assets ! i) = Some (5 / 10) \<and>
        restitution (resetting (3 / 10) (5 / 10) 0 example_assets ! i) = Some (5 / 10)"
    by blast
  from this[rule_format, OF m v] t h m v show ?thesis by blast
qed

text \<open>
  C5. The velocity given to a dynamic object placed at \<open>(x, y, z)\<close> is the sample of
  \<^verbatim>\<open>rng.uniform(*VELOCITY_RANGE)\<close> minus \<open>(x, y, 0)\<close>. For unit draws the sample lies
  in the velocity range, from -4 to 4 in its first two components and 0 in the third, so
  the third component of the velocity is 0.
\<close>

theorem toss_velocity:
  assumes "unit_draw ux" "unit_draw uy" "unit_draw uz" "position obj = (x, y, z)"
  shows "\<exists>sx sy sz. uniform3 (fst VELOCITY_RANGE) (snd VELOCITY_RANGE) (ux, uy, uz) = (sx, sy, sz) \<and>
     - 4 \<le> sx \<and> sx < 4 \<and> - 4 \<le> sy \<and> sy < 4 \<and> sz = 0 \<and>
     velocity (toss (ux, uy, uz) obj) = Some (vsub (sx, sy, sz) (x, y, 0)) \<and>
     velocity (toss (ux, uy, uz) obj) = Some (sx - x, sy - y, 0)"
proof -
  have x: "- 4 \<le> uniform (- 4) 4 ux \<and> uniform (- 4) 4 ux < 4"
    by (rule uniform_half_open) (simp_all add: assms)
  have y: "- 4 \<le> uniform (- 4) 4 uy \<and> uniform (- 4) 4 uy < 4"
    by (rule uniform_half_open) (simp_all add: assms)
  have z: "uniform 0 0 uz = 0" by (simp add: uniform_def)
  show ?thesis
    using x y z assms(4)
    by (simp add: toss_def uniform3_def VELOCITY_RANGE_def vsub_def)
qed

theorem toss_velocity_witness:
  "unit_draw (1 / 4) \<and> unit_draw (3 / 4) \<and> unit_draw (1 / 2) \<and>
   position example_object = (3, - 2, 1) \<and>
   velocity (toss (1 / 4, 3 / 4, 1 / 2) example_object) = Some (- 2 - 3, 2 - (- 2), 0)"
proof -
  have h: "unit_draw (1 / 4)" "unit_draw (3 / 4)" "unit_draw (1 / 2)"
    "position example_object = (3, - 2, 1)"
    by (simp_all add: unit_draw_def example_object_def)
  from toss_velocity[OF h] obtain sx sy sz where
    s: "uniform3 (fst VELOCITY_RANGE) (snd VELOCITY_RANGE) (1 / 4, 3 / 4, 1 / 2) = (sx, sy, sz)"
    and v: "velocity (toss (1 / 4, 3 / 4, 1 / 2) example_object) = Some (sx - 3, sy - (- 2), 0)"
    by blast
  from s have "sx = - 2" "sy = 2"
    by (simp_all add: uniform3_def VELOCITY_RANGE_def uniform_def)
  then show ?thesis using h v by simp
qed



section \<open>Claims about the postprocessing\<close>

text \<open>
  C2. With at least one rendered frame the postprocessing ends without an error. The
  retained list has no duplicates and holds exactly the foreground assets that are seen
  in at least one frame. It is ordered by descending total pixel count over all frames,
  assets of equal count in their order in the scene. The count of instances is its
  length. Every pixel is rewritten through the remap: the background and every label
  that is not the label of a retained asset become 0, the label of the \<open>k\<close>-th retained
  asset (counting from 0) becomes \<open>k + 1\<close>. For three objects with the totals 50, 0 and 120
  the retained list is the third object and then the first, two instances; label 3
  becomes 1, label 1 becomes 2 and label 2 becomes 0.
\<close>

theorem postprocess_retains_and_ranks:
  assumes "segmentation \<noteq> []"
  shows "(\<exists>r. postprocess segmentation assets = Inr r \<and>
       distinct (visible_foreground_assets r) \<and>
       set (visible_foreground_assets r)
         = {i. i < length assets \<and> \<not> background (assets ! i) \<and> seen segmentation i} \<and>
       sorted_wrt (ranked (\<lambda>i. int (total_count segmentation i))) (visible_foreground_assets r) \<and>
       num_instances r = length (visible_foreground_assets r) \<and>
       segmentation_out r
         = map (map (remap assets (visible_foreground_assets r))) segmentation \<and>
       (\<forall>p. p = 0 \<or> p - 1 \<notin> set (visible_foreground_assets r) \<longrightarrow>
            remap assets (visible_foreground_assets r) p = 0) \<and>
       (\<forall>k < length (visible_foreground_assets r).
            remap assets (visible_foreground_assets r) (visible_foreground_assets r ! k + 1) = k + 1)) \<and>
     total_count example_segmentation 0 = 50 \<and>
     total_count example_segmentation 1 = 0 \<and>
     total_count example_segmentation 2 = 120 \<and>
     visible_foreground_assets (projr (postprocess example_segmentation example_objects)) = [2, 0] \<and>
     num_instances (projr (postprocess example_segmentation example_objects)) = 2 \<and>
     remap example_objects [2, 0] 3 = 1 \<and> remap example_objects [2, 0] 1 = 2 \<and>
     remap example_objects [2, 0] 2 = 0"
proof -
  define cv where "cv = compute_visibility segmentation assets"
  define vs where "vs = sorted_reverse (total_visibility cv)
      (filter (seen segmentation) (foreground_assets assets))"
  define r where "r = \<lparr>segmentation_out = map (map (remap assets vs)) segmentation,
      visible_foreground_assets = vs, num_instances = length vs,
      instances = get_instance_info cv vs\<rparr>"
  have pp: "postprocess segmentation assets = Inr r"
    by (simp add: postprocess_eq[OF assms] Let_def r_def vs_def cv_def)
  have v: "visible_foreground_assets r = vs" "num_instances r = length vs"
    "segmentation_out r = map (map (remap assets vs)) segmentation"
    by (simp_all add: r_def)
  have d: "distinct vs"
    and s: "set vs = {i. i < length assets \<and> \<not> background (assets ! i) \<and> seen segmentation i}"
    and o: "sorted_wrt (ranked (\<lambda>i. int (total_count segmentation i))) vs"
    unfolding vs_def cv_def by (rule retained_props)+
  have bg: "\<forall>p. p = 0 \<or> p - 1 \<notin> set vs \<longrightarrow> remap assets vs p = 0"
    by (simp add: remap_background)
  have inb: "\<forall>i\<in>set vs. i < length assets" by (simp add: s)
  have kept: "\<forall>k < length vs. remap assets vs (vs ! k + 1) = k + 1"
  proof (intro allI impI)
    fix k
    assume "k < length vs"
    with d inb show "remap assets vs (vs ! k + 1) = k + 1"
      by (rule remap_retained)
  qed
  have general: "\<exists>r. postprocess segmentation assets = Inr r \<and>
       distinct (visible_foreground_assets r) \<and>
       set (visible_foreground_assets r)
         = {i. i < length assets \<and> \<not> background (assets ! i) \<and> seen segmentation i} \<and>
       sorted_wrt (ranked (\<lambda>i. int (total_count segmentation i))) (visible_foreground_assets r) \<and>
       num_instances r = length (visible_foreground_assets r) \<and>
       segmentation_out r
         = map (map (remap assets (visible_foreground_assets r))) segmentation \<and>
       (\<forall>p. p = 0 \<or> p - 1 \<notin> set (visible_foreground_assets r) \<longrightarrow>
            remap assets (visible_foreground_assets r) p = 0) \<and>
       (\<forall>k < length (visible_foreground_assets r).
            remap assets (visible_foreground_assets r) (visible_foreground_assets r ! k + 1) = k + 1)"
    apply (rule exI[of _ r])
    unfolding v
    using pp d s o bg kept by (intro conjI) simp_all
  have len: "length example_objects = 3" by (simp add: example_objects_def)
  have ex: "remap example_objects [2, 0] 3 = 1" "remap example_objects [2, 0] 1 = 2"
    "remap example_objects [2, 0] 2 = 0"
    by (simp_all add: remap_def len)
  have exv: "visible_foreground_assets (projr (postprocess example_segmentation example_objects)) = [2, 0]"
    "num_instances (projr (postprocess example_segmentation example_objects)) = 2"
    by (simp_all add: example_postprocess)
  show ?thesis
    by (intro conjI general example_totals exv ex)
qed

theorem postprocess_retains_and_ranks_witness:
  "example_segmentation \<noteq> [] \<and>
   visible_foreground_assets (projr (postprocess example_segmentation example_objects)) = [2, 0] \<and>
   ((2::nat) = 0 \<or> (2::nat) - 1 \<notin> set [2, 0]) \<and> remap example_objects [2, 0] 2 = 0 \<and>
   (0::nat) < length [2, 0 :: nat] \<and> remap example_objects [2, 0] ([2, 0] ! 0 + 1) = 0 + 1"
proof -
  have ne: "example_segmentation \<noteq> []" by (simp add: example_segmentation_def)
  from postprocess_retains_and_ranks[OF ne, of example_objects] obtain r where
    pp: "postprocess example_segmentation example_objects = Inr r" and
    bg: "\<forall>p. p = 0 \<or> p - 1 \<notin> set (visible_foreground_assets r) \<longrightarrow>
            remap example_objects (visible_foreground_assets r) p = 0" and
    kept: "\<forall>k < length (visible_foreground_assets r).
            remap example_objects (visible_foreground_assets r) (visible_foreground_assets r ! k + 1) = k + 1"
    by (elim conjE exE)
  have v: "visible_foreground_assets r = [2, 0]"
    using pp unfolding example_postprocess by auto
  have a: "(2::nat) = 0 \<or> (2::nat) - 1 \<notin> set [2, 0]" by simp
  have b: "(0::nat) < length [2, 0 :: nat]" by simp
  from bg[unfolded v, rule_format, OF a] kept[unfolded v, rule_format, OF b] ne pp v a b
  show ?thesis by simp
qed

text \<open>
  C8. With at least one rendered frame, and no pixel of any frame carrying the label
  of a foreground asset, the postprocessing ends without an error: the retained list is
  empty, the count of instances is 0, the list of instance infos is empty and every
  pixel of every frame becomes 0.
\<close>

theorem postprocess_nothing_visible:
  assumes "segmentation \<noteq> []"
    and "\<forall>i < length assets. \<not> background (assets ! i) \<longrightarrow>
           (\<forall>frame\<in>set segmentation. count_list frame (i + 1) = 0)"
  shows "postprocess segmentation assets =
     Inr \<lparr>segmentation_out = map (map (\<lambda>p. 0)) segmentation,
          visible_foreground_assets = [], num_instances = 0, instances = []\<rparr>"
proof -
  have "filter (seen segmentation) (foreground_assets assets) = []"
    using assms(2) by (auto simp: filter_empty_conv foreground_assets_def seen_def)
  then show ?thesis
    by (simp add: postprocess_eq[OF assms(1)] Let_def sorted_reverse_def remap_nothing
        get_instance_info_def)
qed

theorem postprocess_nothing_visible_witness:
  "[[0, 1, 1, 0], [1, 1, 0, 0 :: nat]] \<noteq> [] \<and>
   \<not> background ([example_dome, example_object] ! 1) \<and>
   count_list [0, 1, 1, 0 :: nat] (1 + 1) = 0 \<and> count_list [1, 1, 0, 0 :: nat] (1 + 1) = 0 \<and>
   postprocess [[0, 1, 1, 0], [1, 1, 0, 0]] [example_dome, example_object] =
     Inr \<lparr>segmentation_out = [[0, 0, 0, 0], [0, 0, 0, 0]],
          visible_foreground_assets = [], num_instances = 0, instances = []\<rparr>"
proof -
  have ne: "[[0, 1, 1, 0], [1, 1, 0, 0 :: nat]] \<noteq> []" by simp
  have h: "\<forall>i < length [example_dome, example_object].
      \<not> background ([example_dome, example_object] ! i) \<longrightarrow>
        (\<forall>frame\<in>set [[0, 1, 1, 0], [1, 1, 0, 0]]. count_list frame (i + 1) = 0)"
    by (simp add: less_Suc_eq example_dome_def)
  have fg: "\<not> background ([example_dome, example_object] ! 1)"
    by (simp add: example_object_def)
  from postprocess_nothing_visible[OF ne h] fg show ?thesis
    by simp
qed

end
